theory Spec2Isabelle
  imports Complex_Main "HOL-Library.AList"
begin

section \<open>The trace generator of examples/test-app.py\<close>

text \<open>
  The program is one Python script. It configures an OpenTelemetry tracer at import time,
  defines the simulated workflow (\<open>process_order\<close> and its three steps) and runs the
  driver loop of \<open>main\<close> until Ctrl+C. The tracing library, the random module and
  \<open>time.sleep\<close> are not part of the script: they are modelled below, each under a
  comment that says where the model comes from. Everything the script does is a
  function on an explicit \<open>world\<close>; an exception is the value \<open>Inl e\<close>.
\<close>

subsection \<open>Spans\<close>

text \<open>Attribute values are Python scalars: \<open>str\<close>, \<open>int\<close> and \<open>bool\<close>.\<close>

datatype attr_value = AStr string | AInt int | ABool bool

datatype status = Unset | Ok | Error string

record event =
  event_name :: string
  event_attributes :: "(string \<times> attr_value) list"

text \<open>
  The fields of a span that the script can influence. Identifiers of the trace and the
  timestamps are left out: no statement below reads them.
\<close>

record span =
  span_id :: nat
  parent_span_id :: "nat option"
  span_name :: string
  attributes :: "(string \<times> attr_value) list"
  events :: "event list"
  span_status :: status

subsection \<open>The world the script runs in\<close>

text \<open>
  \<open>Exception m\<close> is an instance of Python's \<open>Exception\<close> (or of a subclass) whose
  \<open>str\<close> is \<open>m\<close>; \<open>KeyboardInterrupt\<close> derives from \<open>BaseException\<close> only, so
  an \<open>except Exception\<close> clause does not catch it.
\<close>

datatype exn = Exception string | KeyboardInterrupt

text \<open>
  \<open>stack\<close> is the context stack of open spans, the current span first; \<open>queue\<close> holds the
  finished spans handed to the batch processor, in the order they finished; \<open>exported\<close>
  the spans a flush has handed to the exporter. \<open>rpos\<close> counts the draws made from the
  random generator, \<open>sleeps\<close> the calls of \<open>time.sleep\<close>, \<open>flushes\<close> the calls of
  \<open>force_flush\<close>; \<open>stdout\<close> is the printed lines.
\<close>

record world =
  next_span_id :: nat
  stack :: "span list"
  queue :: "span list"
  exported :: "span list"
  rpos :: nat
  sleeps :: nat
  flushes :: nat
  stdout :: "string list"

text \<open>
  What the script does not decide: \<open>raw env i\<close> is the \<open>i\<close>-th raw draw of the
  random generator, \<open>sigint env n\<close> says whether Ctrl+C arrives while the process is in
  its \<open>n\<close>-th sleep.
\<close>

record env =
  raw :: "nat \<Rightarrow> nat"
  sigint :: "nat \<Rightarrow> bool"

type_synonym 'a action = "world \<Rightarrow> (exn + 'a) \<times> world"

definition and_then :: "'a action \<Rightarrow> ('a \<Rightarrow> 'b action) \<Rightarrow> 'b action" where
  "and_then m f w = (case m w of (Inl e, w') \<Rightarrow> (Inl e, w') | (Inr x, w') \<Rightarrow> f x w')"

definition raise :: "exn \<Rightarrow> 'a action" where
  "raise e w = (Inl e, w)"

definition print :: "string \<Rightarrow> unit action" where
  "print line w = (Inr (), w\<lparr>stdout := stdout w @ [line]\<rparr>)"

subsection \<open>The random module and time.sleep\<close>

text \<open>
  Modelled from the Python library: the \<open>i\<close>-th call of the generator turns the raw
  draw \<open>raw env i\<close> into its result. \<open>random.random()\<close> is \<open>k / 2^53\<close> for a
  53-bit \<open>k\<close>, \<open>random.randint(a, b)\<close> is \<open>a\<close> plus a draw below \<open>b - a + 1\<close>,
  \<open>random.choice(seq)\<close> indexes \<open>seq\<close> with a draw below its length and raises
  \<open>IndexError\<close> on an empty sequence, \<open>random.uniform(a, b)\<close> is
  \<open>a + (b - a) * random()\<close>. Floats are the reals they denote; the rounding of
  \<open>uniform\<close> is left out (its result is only a sleep duration).
\<close>

definition random_value :: "env \<Rightarrow> nat \<Rightarrow> real" where
  "random_value env i = real (raw env i mod 2 ^ 53) / 2 ^ 53"

definition randbelow :: "env \<Rightarrow> nat \<Rightarrow> nat \<Rightarrow> nat" where
  "randbelow env i n = raw env i mod n"

definition random_random :: "env \<Rightarrow> real action" where
  "random_random env w = (Inr (random_value env (rpos w)), w\<lparr>rpos := Suc (rpos w)\<rparr>)"

definition randint :: "env \<Rightarrow> int \<Rightarrow> int \<Rightarrow> int action" where
  "randint env a b w =
     (Inr (a + int (randbelow env (rpos w) (nat (b - a + 1)))), w\<lparr>rpos := Suc (rpos w)\<rparr>)"

definition choice :: "env \<Rightarrow> 'a list \<Rightarrow> 'a action" where
  "choice env seq w =
     (if seq = [] then (Inl (Exception ''Cannot choose from an empty sequence''), w)
      else (Inr (seq ! randbelow env (rpos w) (length seq)), w\<lparr>rpos := Suc (rpos w)\<rparr>))"

definition uniform :: "env \<Rightarrow> real \<Rightarrow> real \<Rightarrow> real action" where
  "uniform env a b =
     and_then (random_random env) (\<lambda>u. (\<lambda>w. (Inr (a + (b - a) * u), w)))"

text \<open>
  A sleep is where the process spends its time, so it is where Ctrl+C finds it: the
  \<open>n\<close>-th sleep raises \<open>KeyboardInterrupt\<close> when \<open>sigint env n\<close>.
\<close>

definition time_sleep :: "env \<Rightarrow> real \<Rightarrow> unit action" where
  "time_sleep env d w =
     (if sigint env (sleeps w) then (Inl KeyboardInterrupt, w\<lparr>sleeps := Suc (sleeps w)\<rparr>)
      else (Inr (), w\<lparr>sleeps := Suc (sleeps w)\<rparr>))"

subsection \<open>The tracer\<close>

text \<open>
  Modelled from the spec: the tracing library (\<open>tracer.start_as_current_span\<close>,
  \<open>span.set_attribute\<close>, \<open>span.add_event\<close>, \<open>provider.force_flush\<close>) is imported by
  the script and is not in the repository. The model follows section 4.1 and 4.2 of the
  specification. Starting a span gives it a fresh identifier, makes the current span its
  parent (none when the stack is empty) and pushes it; a new span has no attributes, no
  events and status \<open>Unset\<close>. A mutation reaches an open span only. Leaving the scope
  finishes the span on every exit path: the status becomes \<open>Error\<close> with the message
  when an exception crosses the scope, the span is popped and handed to the batch
  processor. \<open>force_flush\<close> hands everything buffered to the exporter. The exports
  that the processor's background timer starts on its own are concurrent and not
  modelled.
\<close>

definition current_span :: "world \<Rightarrow> nat option" where
  "current_span w = (case stack w of [] \<Rightarrow> None | p # _ \<Rightarrow> Some (span_id p))"

definition start_span :: "string \<Rightarrow> nat action" where
  "start_span nm w =
     (let sid = next_span_id w;
          s = \<lparr>span_id = sid, parent_span_id = current_span w,
               span_name = nm, attributes = [], events = [], span_status = Unset\<rparr>
      in (Inr sid, w\<lparr>next_span_id := Suc sid, stack := s # stack w\<rparr>))"

fun update_span :: "nat \<Rightarrow> (span \<Rightarrow> span) \<Rightarrow> span list \<Rightarrow> span list" where
  "update_span sid f [] = []"
| "update_span sid f (s # ss) =
     (if span_id s = sid then f s # ss else s # update_span sid f ss)"

definition set_attribute :: "nat \<Rightarrow> string \<Rightarrow> attr_value \<Rightarrow> unit action" where
  "set_attribute sid k v w =
     (Inr (), w\<lparr>stack :=
        update_span sid (\<lambda>s. s\<lparr>attributes := AList.update k v (attributes s)\<rparr>) (stack w)\<rparr>)"

definition add_event :: "nat \<Rightarrow> string \<Rightarrow> (string \<times> attr_value) list \<Rightarrow> unit action" where
  "add_event sid nm attrs w =
     (Inr (), w\<lparr>stack :=
        update_span sid
          (\<lambda>s. s\<lparr>events := events s @ [\<lparr>event_name = nm, event_attributes = attrs\<rparr>]\<rparr>)
          (stack w)\<rparr>)"

fun exn_message :: "exn \<Rightarrow> string" where
  "exn_message (Exception m) = m"
| "exn_message KeyboardInterrupt = []"

definition end_span :: "nat \<Rightarrow> exn option \<Rightarrow> world \<Rightarrow> world" where
  "end_span sid err w =
     (case stack w of
        [] \<Rightarrow> w
      | s # rest \<Rightarrow>
          if span_id s = sid then
            w\<lparr>stack := rest,
              queue := queue w @
                [case err of None \<Rightarrow> s | Some e \<Rightarrow> s\<lparr>span_status := Error (exn_message e)\<rparr>]\<rparr>
          else w)"

definition start_as_current_span :: "string \<Rightarrow> (nat \<Rightarrow> 'a action) \<Rightarrow> 'a action" where
  "start_as_current_span nm body =
     and_then (start_span nm) (\<lambda>sid w.
       case body sid w of
         (Inl e, w') \<Rightarrow> (Inl e, end_span sid (Some e) w')
       | (Inr x, w') \<Rightarrow> (Inr x, end_span sid None w'))"

definition force_flush :: "unit action" where
  "force_flush w =
     (Inr (), w\<lparr>exported := exported w @ queue w, queue := [], flushes := Suc (flushes w)\<rparr>)"

subsection \<open>The workflow simulator\<close>

definition validate_order :: "env \<Rightarrow> string \<Rightarrow> unit action" where
  "validate_order env order_id =
     start_as_current_span ''validate_order'' (\<lambda>span.
       and_then (set_attribute span ''order.id'' (AStr order_id)) (\<lambda>_.
       and_then (uniform env (1 / 10) (3 / 10)) (\<lambda>d.
       and_then (time_sleep env d) (\<lambda>_.
       add_event span ''Order validated'' []))))"

text \<open>
  The literal \<open>0.1\<close> of the failure test is a double a little above one tenth. On the
  values \<open>k / 2^53\<close> that \<open>random.random()\<close> returns, being below that double and
  being below \<open>1 / 10\<close> are the same (lemma \<open>below_double_tenth\<close>), so the model
  compares with \<open>1 / 10\<close>.
\<close>

definition process_payment :: "env \<Rightarrow> string \<Rightarrow> unit action" where
  "process_payment env order_id =
     start_as_current_span ''process_payment'' (\<lambda>span.
       and_then (set_attribute span ''order.id'' (AStr order_id)) (\<lambda>_.
       and_then (choice env [''credit_card'', ''paypal'', ''bank_transfer'']) (\<lambda>m.
       and_then (set_attribute span ''payment.method'' (AStr m)) (\<lambda>_.
       and_then (uniform env (2 / 10) (5 / 10)) (\<lambda>d.
       and_then (time_sleep env d) (\<lambda>_.
       and_then (random_random env) (\<lambda>u.
       if u < 1 / 10 then
         and_then (set_attribute span ''error'' (ABool True)) (\<lambda>_.
         and_then (add_event span ''Payment failed''
                     [(''reason'', AStr ''insufficient_funds'')]) (\<lambda>_.
         raise (Exception ''Payment failed: insufficient funds'')))
       else add_event span ''Payment processed successfully'' [])))))))"

definition schedule_shipment :: "env \<Rightarrow> string \<Rightarrow> unit action" where
  "schedule_shipment env order_id =
     start_as_current_span ''schedule_shipment'' (\<lambda>span.
       and_then (set_attribute span ''order.id'' (AStr order_id)) (\<lambda>_.
       and_then (choice env [''USPS'', ''FedEx'', ''UPS'']) (\<lambda>c.
       and_then (set_attribute span ''carrier'' (AStr c)) (\<lambda>_.
       and_then (uniform env (1 / 10) (2 / 10)) (\<lambda>d.
       and_then (time_sleep env d) (\<lambda>_.
       add_event span ''Shipment scheduled'' []))))))"

definition process_order :: "env \<Rightarrow> string \<Rightarrow> unit action" where
  "process_order env order_id =
     start_as_current_span ''process_order'' (\<lambda>span.
       and_then (set_attribute span ''order.id'' (AStr order_id)) (\<lambda>_.
       and_then (randint env 10 1000) (\<lambda>v.
       and_then (set_attribute span ''order.value'' (AInt v)) (\<lambda>_.
       and_then (validate_order env order_id) (\<lambda>_.
       and_then (process_payment env order_id) (\<lambda>_.
       and_then (schedule_shipment env order_id) (\<lambda>_.
       print (''Order '' @ order_id @ '' processed successfully''))))))))"

subsection \<open>The driver loop\<close>

text \<open>
  \<open>str_int\<close> is Python's \<open>str\<close> on a non-negative integer, \<open>format_05d\<close>
  the format specification \<open>05d\<close>: the decimal digits, padded with zeros on the left
  up to five characters (and left alone when there are five or more).
\<close>

definition digit_char :: "nat \<Rightarrow> char" where
  "digit_char d = ''0123456789'' ! d"

fun str_int :: "nat \<Rightarrow> string" where
  "str_int n = (if n < 10 then [digit_char n] else str_int (n div 10) @ [digit_char (n mod 10)])"

declare str_int.simps [simp del]

definition format_05d :: "nat \<Rightarrow> string" where
  "format_05d n = replicate (5 - length (str_int n)) CHR ''0'' @ str_int n"

definition order_id :: "nat \<Rightarrow> string" where
  "order_id order_counter = ''ORD-'' @ format_05d order_counter"

text \<open>
  One pass through the body of \<open>while True\<close> (lines 98 to 104). The result is the
  exception that leaves the loop, if any, the value of \<open>order_counter\<close> and the world.
  \<open>except Exception\<close> catches \<open>Exception e\<close> and prints it; a
  \<open>KeyboardInterrupt\<close> passes through.
\<close>

definition loop_body :: "env \<Rightarrow> nat \<Rightarrow> world \<Rightarrow> exn option \<times> nat \<times> world" where
  "loop_body env order_counter w =
     (case process_order env (order_id order_counter) w of
        (Inl KeyboardInterrupt, w1) \<Rightarrow> (Some KeyboardInterrupt, order_counter, w1)
      | (r, w1) \<Rightarrow>
          (let w2 = (case r of
                       Inl e \<Rightarrow> snd (print (''Error processing order '' @ str_int order_counter
                                           @ '': '' @ exn_message e) w1)
                     | Inr _ \<Rightarrow> w1)
           in case and_then (uniform env 1 3) (time_sleep env) w2 of
                (Inl e, w3) \<Rightarrow> (Some e, order_counter + 1, w3)
              | (Inr _, w3) \<Rightarrow> (None, order_counter + 1, w3)))"

text \<open>
  The loop has no exit of its own. \<open>driver_loop env n\<close> runs at most \<open>n\<close> passes:
  it gives \<open>Some e\<close> when the exception \<open>e\<close> left the loop within them, and
  \<open>None\<close> with the state reached when the loop is still running after \<open>n\<close>
  passes.
\<close>

fun driver_loop :: "env \<Rightarrow> nat \<Rightarrow> nat \<Rightarrow> world \<Rightarrow> exn option \<times> nat \<times> world" where
  "driver_loop env 0 order_counter w = (None, order_counter, w)"
| "driver_loop env (Suc n) order_counter w =
     (case loop_body env order_counter w of
        (Some e, c, w') \<Rightarrow> (Some e, c, w')
      | (None, c, w') \<Rightarrow> driver_loop env n c w')"

definition newline :: char where
  "newline = CHR 0x0A"

text \<open>
  \<open>main env n w\<close> is \<open>None\<close> when the loop is still running after \<open>n\<close> passes.
  Otherwise it is the result of \<open>main\<close>: the handler of \<open>KeyboardInterrupt\<close>
  flushes and returns; any other exception leaves \<open>main\<close>.
\<close>

definition main :: "env \<Rightarrow> nat \<Rightarrow> world \<Rightarrow> ((exn + unit) \<times> world) option" where
  "main env n w =
     (let w0 = snd (and_then (print ''Starting test application...'') (\<lambda>_.
                    and_then (print ''Sending traces to http://localhost:4320'') (\<lambda>_.
                    print (''Press Ctrl+C to stop'' @ [newline]))) w)
      in case driver_loop env n 1 w0 of
           (None, c, w1) \<Rightarrow> None
         | (Some KeyboardInterrupt, c, w1) \<Rightarrow>
             Some (and_then (print ([newline, newline] @ ''Stopping test application...'')) (\<lambda>_.
                   and_then (print ''Flushing remaining traces...'') (\<lambda>_.
                   and_then force_flush (\<lambda>_.
                   print ''Done!''))) w1)
         | (Some e, c, w1) \<Rightarrow> Some (Inl e, w1))"

text \<open>
  The script run as a program: \<open>main()\<close> is called once, in a fresh world. The exit
  status is 0 when \<open>main\<close> returns and not 0 when an exception leaves it.
\<close>

definition initial_world :: world where
  "initial_world = \<lparr>next_span_id = 0, stack = [], queue = [], exported = [], rpos = 0,
     sleeps = 0, flushes = 0, stdout = []\<rparr>"

fun exit_status :: "exn + unit \<Rightarrow> nat" where
  "exit_status (Inr _) = 0"
| "exit_status (Inl (Exception _)) = 1"
| "exit_status (Inl KeyboardInterrupt) = 130"

definition script :: "env \<Rightarrow> nat \<Rightarrow> (nat \<times> world) option" where
  "script env n = map_option (\<lambda>(r, w). (exit_status r, w)) (main env n initial_world)"

subsection \<open>What the script configures\<close>

text \<open>
  Lines 18 to 28 and the call of \<open>force_flush\<close> at line 109 are all the script says
  about its configuration. \<open>startup\<close> is what a process is given when it starts:
  its command line and its environment. \<open>tracing_setup\<close> holds the arguments the
  script passes to the library, \<open>None\<close> where it passes none and the library's own
  default applies.
\<close>

record startup =
  argv :: "string list"
  environ :: "(string \<times> string) list"

record tracing_setup =
  service_name :: string
  endpoint :: "string option"
  max_export_batch_size :: "nat option"
  schedule_delay_millis :: "nat option"
  flush_timeout_millis :: "nat option"

definition configure :: "startup \<Rightarrow> tracing_setup" where
  "configure st =
     \<lparr>service_name = ''test-application'',
      endpoint = Some ''http://localhost:4320/v1/traces'',
      max_export_batch_size = None,
      schedule_delay_millis = None,
      flush_timeout_millis = None\<rparr>"

subsection \<open>Observations used in the statements\<close>

text \<open>The spans an action finishes: what it appends to the processor's queue.\<close>

definition spans_finished :: "'a action \<Rightarrow> world \<Rightarrow> span list" where
  "spans_finished m w = drop (length (queue w)) (queue (snd (m w)))"

definition attribute :: "span \<Rightarrow> string \<Rightarrow> attr_value option" where
  "attribute s k = map_of (attributes s) k"


text \<open>
  The order ids the workflow was invoked with, read off the \<open>order.id\<close> attribute of
  the root spans in a list of finished spans.
\<close>

fun attr_string :: "attr_value option \<Rightarrow> string" where
  "attr_string (Some (AStr v)) = v"
| "attr_string _ = []"

definition order_ids :: "span list \<Rightarrow> string list" where
  "order_ids ss =
     map (\<lambda>s. attr_string (attribute s ''order.id''))
       (filter (\<lambda>s. span_name s = ''process_order'') ss)"

text \<open>Reading the number back from an order id: Python's \<open>int\<close> on the digits.\<close>

definition digit_value :: "char \<Rightarrow> nat" where
  "digit_value c = of_char c - 48"

definition int_str :: "string \<Rightarrow> nat" where
  "int_str s = foldl (\<lambda>a c. 10 * a + digit_value c) 0 s"

definition order_number :: "string \<Rightarrow> nat" where
  "order_number oid = int_str (drop 4 oid)"

text \<open>
  Environments for concrete runs: every raw draw is \<open>r\<close>, and Ctrl+C arrives during
  the sleep numbered \<open>k\<close> (never, for \<open>None\<close>).
\<close>

definition fixed_env :: "nat \<Rightarrow> nat option \<Rightarrow> env" where
  "fixed_env r k = \<lparr>raw = (\<lambda>_. r), sigint = (\<lambda>n. k = Some n)\<rparr>"

section \<open>Symbolic execution of the workflow\<close>

lemmas step_defs = and_then_def raise_def print_def random_random_def randint_def choice_def
  uniform_def time_sleep_def start_span_def set_attribute_def add_event_def end_span_def
  start_as_current_span_def

lemma validate_order_result:
  "validate_order env oid w =
     (if sigint env (sleeps w) then Inl KeyboardInterrupt else Inr (),
      w\<lparr>next_span_id := Suc (next_span_id w),
        queue := queue w @
          [\<lparr>span_id = next_span_id w, parent_span_id = current_span w,
            span_name = ''validate_order'', attributes = [(''order.id'', AStr oid)],
            events = (if sigint env (sleeps w) then []
                      else [\<lparr>event_name = ''Order validated'', event_attributes = []\<rparr>]),
            span_status = (if sigint env (sleeps w) then Error [] else Unset)\<rparr>],
        rpos := Suc (rpos w), sleeps := Suc (sleeps w)\<rparr>)"
  by (simp add: validate_order_def step_defs Let_def)

lemma process_payment_interrupted:
  assumes "sigint env (sleeps w)"
  shows "process_payment env oid w =
     (Inl KeyboardInterrupt,
      w\<lparr>next_span_id := Suc (next_span_id w),
        queue := queue w @
          [\<lparr>span_id = next_span_id w, parent_span_id = current_span w,
            span_name = ''process_payment'',
            attributes = [(''order.id'', AStr oid),
              (''payment.method'', AStr ([''credit_card'', ''paypal'', ''bank_transfer''] ! randbelow env (rpos w) 3))],
            events = [], span_status = Error []\<rparr>],
        rpos := Suc (Suc (rpos w)), sleeps := Suc (sleeps w)\<rparr>)"
  using assms by (simp add: process_payment_def step_defs Let_def randbelow_def)

lemma process_payment_failed:
  assumes "\<not> sigint env (sleeps w)" "random_value env (Suc (Suc (rpos w))) < 1 / 10"
  shows "process_payment env oid w =
     (Inl (Exception ''Payment failed: insufficient funds''),
      w\<lparr>next_span_id := Suc (next_span_id w),
        queue := queue w @
          [\<lparr>span_id = next_span_id w, parent_span_id = current_span w,
            span_name = ''process_payment'',
            attributes = [(''order.id'', AStr oid),
              (''payment.method'', AStr ([''credit_card'', ''paypal'', ''bank_transfer''] ! randbelow env (rpos w) 3)),
              (''error'', ABool True)],
            events = [\<lparr>event_name = ''Payment failed'',
                       event_attributes = [(''reason'', AStr ''insufficient_funds'')]\<rparr>],
            span_status = Error ''Payment failed: insufficient funds''\<rparr>],
        rpos := Suc (Suc (Suc (rpos w))), sleeps := Suc (sleeps w)\<rparr>)"
  using assms by (simp add: process_payment_def step_defs Let_def randbelow_def)

lemma process_payment_succeeded:
  assumes "\<not> sigint env (sleeps w)" "\<not> random_value env (Suc (Suc (rpos w))) < 1 / 10"
  shows "process_payment env oid w =
     (Inr (),
      w\<lparr>next_span_id := Suc (next_span_id w),
        queue := queue w @
          [\<lparr>span_id = next_span_id w, parent_span_id = current_span w,
            span_name = ''process_payment'',
            attributes = [(''order.id'', AStr oid),
              (''payment.method'', AStr ([''credit_card'', ''paypal'', ''bank_transfer''] ! randbelow env (rpos w) 3))],
            events = [\<lparr>event_name = ''Payment processed successfully'', event_attributes = []\<rparr>],
            span_status = Unset\<rparr>],
        rpos := Suc (Suc (Suc (rpos w))), sleeps := Suc (sleeps w)\<rparr>)"
  using assms by (simp add: process_payment_def step_defs Let_def randbelow_def)

lemma schedule_shipment_result:
  "schedule_shipment env oid w =
     (if sigint env (sleeps w) then Inl KeyboardInterrupt else Inr (),
      w\<lparr>next_span_id := Suc (next_span_id w),
        queue := queue w @
          [\<lparr>span_id = next_span_id w, parent_span_id = current_span w,
            span_name = ''schedule_shipment'',
            attributes = [(''order.id'', AStr oid),
              (''carrier'', AStr ([''USPS'', ''FedEx'', ''UPS''] ! randbelow env (rpos w) 3))],
            events = (if sigint env (sleeps w) then []
                      else [\<lparr>event_name = ''Shipment scheduled'', event_attributes = []\<rparr>]),
            span_status = (if sigint env (sleeps w) then Error [] else Unset)\<rparr>],
        rpos := Suc (Suc (rpos w)), sleeps := Suc (sleeps w)\<rparr>)"
  by (simp add: schedule_shipment_def step_defs Let_def randbelow_def)

lemmas workflow_results = validate_order_result schedule_shipment_result

lemma process_order_succeeded:
  assumes "\<not> sigint env (sleeps w)" "\<not> sigint env (Suc (sleeps w))"
    "\<not> sigint env (Suc (Suc (sleeps w)))"
    "\<not> random_value env (rpos w + 4) < 1 / 10"
  shows "process_order env oid w =
     (Inr (),
      w\<lparr>next_span_id := next_span_id w + 4,
        queue := queue w @
          [\<lparr>span_id = Suc (next_span_id w), parent_span_id = Some (next_span_id w),
            span_name = ''validate_order'', attributes = [(''order.id'', AStr oid)],
            events = [\<lparr>event_name = ''Order validated'', event_attributes = []\<rparr>],
            span_status = Unset\<rparr>,
           \<lparr>span_id = Suc (Suc (next_span_id w)), parent_span_id = Some (next_span_id w),
            span_name = ''process_payment'',
            attributes = [(''order.id'', AStr oid),
              (''payment.method'', AStr ([''credit_card'', ''paypal'', ''bank_transfer''] ! randbelow env (rpos w + 2) 3))],
            events = [\<lparr>event_name = ''Payment processed successfully'', event_attributes = []\<rparr>],
            span_status = Unset\<rparr>,
           \<lparr>span_id = Suc (Suc (Suc (next_span_id w))), parent_span_id = Some (next_span_id w),
            span_name = ''schedule_shipment'',
            attributes = [(''order.id'', AStr oid),
              (''carrier'', AStr ([''USPS'', ''FedEx'', ''UPS''] ! randbelow env (rpos w + 5) 3))],
            events = [\<lparr>event_name = ''Shipment scheduled'', event_attributes = []\<rparr>],
            span_status = Unset\<rparr>,
           \<lparr>span_id = next_span_id w, parent_span_id = current_span w,
            span_name = ''process_order'',
            attributes = [(''order.id'', AStr oid),
              (''order.value'', AInt (10 + int (randbelow env (rpos w) 991)))],
            events = [], span_status = Unset\<rparr>],
        rpos := rpos w + 7, sleeps := sleeps w + 3,
        stdout := stdout w @ [''Order '' @ oid @ '' processed successfully'']\<rparr>)"
proof -
  have d: "\<not> random_value env (Suc (Suc (Suc (Suc (rpos w))))) < 1 / 10"
    using assms(4) by (simp add: eval_nat_numeral)
  show ?thesis
    using assms(1-3) d
    by (simp add: process_order_def workflow_results process_payment_succeeded
        and_then_def start_as_current_span_def start_span_def set_attribute_def randint_def
        end_span_def print_def current_span_def Let_def eval_nat_numeral)
qed


lemma process_order_interrupted_validate:
  assumes "sigint env (sleeps w)"
  shows "process_order env oid w =
     (Inl KeyboardInterrupt,
      w\<lparr>next_span_id := next_span_id w + 2,
        queue := queue w @
          [\<lparr>span_id = Suc (next_span_id w), parent_span_id = Some (next_span_id w),
            span_name = ''validate_order'', attributes = [(''order.id'', AStr oid)],
            events = [], span_status = Error []\<rparr>,
           \<lparr>span_id = next_span_id w, parent_span_id = current_span w,
            span_name = ''process_order'',
            attributes = [(''order.id'', AStr oid),
              (''order.value'', AInt (10 + int (randbelow env (rpos w) 991)))],
            events = [], span_status = Error []\<rparr>],
        rpos := rpos w + 2, sleeps := sleeps w + 1\<rparr>)"
  using assms
  by (simp add: process_order_def workflow_results 
      and_then_def start_as_current_span_def start_span_def set_attribute_def randint_def
      end_span_def print_def current_span_def Let_def eval_nat_numeral)

lemma process_order_interrupted_payment:
  assumes "\<not> sigint env (sleeps w)" "sigint env (Suc (sleeps w))"
  shows "process_order env oid w =
     (Inl KeyboardInterrupt,
      w\<lparr>next_span_id := next_span_id w + 3,
        queue := queue w @
          [\<lparr>span_id = Suc (next_span_id w), parent_span_id = Some (next_span_id w),
            span_name = ''validate_order'', attributes = [(''order.id'', AStr oid)],
            events = [\<lparr>event_name = ''Order validated'', event_attributes = []\<rparr>],
            span_status = Unset\<rparr>,
           \<lparr>span_id = Suc (Suc (next_span_id w)), parent_span_id = Some (next_span_id w),
            span_name = ''process_payment'',
            attributes = [(''order.id'', AStr oid),
              (''payment.method'', AStr ([''credit_card'', ''paypal'', ''bank_transfer''] ! randbelow env (rpos w + 2) 3))],
            events = [],
            span_status = Error []\<rparr>,
           \<lparr>span_id = next_span_id w, parent_span_id = current_span w,
            span_name = ''process_order'',
            attributes = [(''order.id'', AStr oid),
              (''order.value'', AInt (10 + int (randbelow env (rpos w) 991)))],
            events = [], span_status = Error []\<rparr>],
        rpos := rpos w + 4, sleeps := sleeps w + 2\<rparr>)"
  using assms
  by (simp add: process_order_def workflow_results process_payment_interrupted
      and_then_def start_as_current_span_def start_span_def set_attribute_def randint_def
      end_span_def print_def current_span_def Let_def eval_nat_numeral)

lemma process_order_payment_failed:
  assumes "\<not> sigint env (sleeps w)" "\<not> sigint env (Suc (sleeps w))"
    "random_value env (Suc (Suc (Suc (Suc (rpos w))))) < 1 / 10"
  shows "process_order env oid w =
     (Inl (Exception ''Payment failed: insufficient funds''),
      w\<lparr>next_span_id := next_span_id w + 3,
        queue := queue w @
          [\<lparr>span_id = Suc (next_span_id w), parent_span_id = Some (next_span_id w),
            span_name = ''validate_order'', attributes = [(''order.id'', AStr oid)],
            events = [\<lparr>event_name = ''Order validated'', event_attributes = []\<rparr>],
            span_status = Unset\<rparr>,
           \<lparr>span_id = Suc (Suc (next_span_id w)), parent_span_id = Some (next_span_id w),
            span_name = ''process_payment'',
            attributes = [(''order.id'', AStr oid),
              (''payment.method'', AStr ([''credit_card'', ''paypal'', ''bank_transfer''] ! randbelow env (rpos w + 2) 3)), (''error'', ABool True)],
            events = [\<lparr>event_name = ''Payment failed'', event_attributes = [(''reason'', AStr ''insufficient_funds'')]\<rparr>],
            span_status = Error ''Payment failed: insufficient funds''\<rparr>,
           \<lparr>span_id = next_span_id w, parent_span_id = current_span w,
            span_name = ''process_order'',
            attributes = [(''order.id'', AStr oid),
              (''order.value'', AInt (10 + int (randbelow env (rpos w) 991)))],
            events = [], span_status = Error ''Payment failed: insufficient funds''\<rparr>],
        rpos := rpos w + 5, sleeps := sleeps w + 2\<rparr>)"
  using assms
  by (simp add: process_order_def workflow_results process_payment_failed
      and_then_def start_as_current_span_def start_span_def set_attribute_def randint_def
      end_span_def print_def current_span_def Let_def eval_nat_numeral)

lemma process_order_interrupted_shipment:
  assumes "\<not> sigint env (sleeps w)" "\<not> sigint env (Suc (sleeps w))"
    "sigint env (Suc (Suc (sleeps w)))"
    "\<not> random_value env (Suc (Suc (Suc (Suc (rpos w))))) < 1 / 10"
  shows "process_order env oid w =
     (Inl KeyboardInterrupt,
      w\<lparr>next_span_id := next_span_id w + 4,
        queue := queue w @
          [\<lparr>span_id = Suc (next_span_id w), parent_span_id = Some (next_span_id w),
            span_name = ''validate_order'', attributes = [(''order.id'', AStr oid)],
            events = [\<lparr>event_name = ''Order validated'', event_attributes = []\<rparr>],
            span_status = Unset\<rparr>,
           \<lparr>span_id = Suc (Suc (next_span_id w)), parent_span_id = Some (next_span_id w),
            span_name = ''process_payment'',
            attributes = [(''order.id'', AStr oid),
              (''payment.method'', AStr ([''credit_card'', ''paypal'', ''bank_transfer''] ! randbelow env (rpos w + 2) 3))],
            events = [\<lparr>event_name = ''Payment processed successfully'', event_attributes = []\<rparr>],
            span_status = Unset\<rparr>,
           \<lparr>span_id = Suc (Suc (Suc (next_span_id w))), parent_span_id = Some (next_span_id w),
            span_name = ''schedule_shipment'',
            attributes = [(''order.id'', AStr oid),
              (''carrier'', AStr ([''USPS'', ''FedEx'', ''UPS''] ! randbelow env (rpos w + 5) 3))],
            events = [], span_status = Error []\<rparr>,
           \<lparr>span_id = next_span_id w, parent_span_id = current_span w,
            span_name = ''process_order'',
            attributes = [(''order.id'', AStr oid),
              (''order.value'', AInt (10 + int (randbelow env (rpos w) 991)))],
            events = [], span_status = Error []\<rparr>],
        rpos := rpos w + 7, sleeps := sleeps w + 3\<rparr>)"
  using assms
  by (simp add: process_order_def workflow_results process_payment_succeeded
      and_then_def start_as_current_span_def start_span_def set_attribute_def randint_def
      end_span_def print_def current_span_def Let_def eval_nat_numeral)

lemma rpos_add_4: "rpos w + 4 = Suc (Suc (Suc (Suc (rpos w))))"
  by simp

text \<open>
  The five ways through \<open>process_order\<close>: Ctrl+C in the sleep of the first, second
  or third step, the payment failure, and the run to the end.
\<close>

lemma process_order_cases [case_names validate payment failed shipment succeeded]:
  obtains "sigint env (sleeps w)"
    | "\<not> sigint env (sleeps w)" "sigint env (Suc (sleeps w))"
    | "\<not> sigint env (sleeps w)" "\<not> sigint env (Suc (sleeps w))"
      "random_value env (Suc (Suc (Suc (Suc (rpos w))))) < 1 / 10"
    | "\<not> sigint env (sleeps w)" "\<not> sigint env (Suc (sleeps w))"
      "sigint env (Suc (Suc (sleeps w)))"
      "\<not> random_value env (Suc (Suc (Suc (Suc (rpos w))))) < 1 / 10"
    | "\<not> sigint env (sleeps w)" "\<not> sigint env (Suc (sleeps w))"
      "\<not> sigint env (Suc (Suc (sleeps w)))"
      "\<not> random_value env (rpos w + 4) < 1 / 10"
  unfolding rpos_add_4 by blast

text \<open>
  The double written \<open>0.1\<close> is \<open>3602879701896397 / 2^55\<close>. No value
  \<open>k / 2^53\<close> lies between one tenth and it.
\<close>

lemma below_double_tenth:
  "real k / 2 ^ 53 < 3602879701896397 / 2 ^ 55 \<longleftrightarrow> real k / 2 ^ 53 < 1 / 10"
proof -
  have "real k / 2 ^ 53 < 3602879701896397 / 2 ^ 55 \<longleftrightarrow> 4 * k < 3602879701896397"
    by (simp add: field_simps) linarith
  moreover have "real k / 2 ^ 53 < 1 / 10 \<longleftrightarrow> 10 * k < 2 ^ 53"
    by (simp add: field_simps) linarith
  moreover have "4 * k < 3602879701896397 \<longleftrightarrow> 10 * k < (2::nat) ^ 53"
    by simp linarith
  ultimately show ?thesis by simp
qed

section \<open>The workflow\<close>

text \<open>
  C1. When \<open>process_order\<close> takes the payment failure branch (no Ctrl+C in the two
  sleeps before it, and the draw of \<open>random.random()\<close>, the fifth of the invocation,
  is below the threshold), it raises the payment failure, exactly three spans are
  created and all three are finished, in the order \<open>validate_order\<close>,
  \<open>process_payment\<close>, \<open>process_order\<close>: no \<open>schedule_shipment\<close> span exists and
  the root span is finished although the workflow aborted. The payment span has status
  \<open>Error\<close> and carries the event \<open>Payment failed\<close> with a \<open>reason\<close> attribute.
\<close>

theorem process_order_payment_failure:
  assumes "\<not> sigint env (sleeps w)" and "\<not> sigint env (Suc (sleeps w))"
    and "random_value env (rpos w + 4) < 1 / 10"
  shows "case process_order env oid w of (r, w') \<Rightarrow>
           r = Inl (Exception ''Payment failed: insufficient funds'') \<and>
           next_span_id w' = next_span_id w + 3 \<and>
           stack w' = stack w \<and>
           (\<exists>v p root. queue w' = queue w @ [v, p, root] \<and>
              span_name v = ''validate_order'' \<and>
              span_name p = ''process_payment'' \<and>
              span_name root = ''process_order'' \<and>
              span_status p = Error ''Payment failed: insufficient funds'' \<and>
              events p = [\<lparr>event_name = ''Payment failed'',
                           event_attributes = [(''reason'', AStr ''insufficient_funds'')]\<rparr>])"
  using assms by (simp add: process_order_payment_failed rpos_add_4)

theorem process_order_payment_failure_witness:
  "case process_order (fixed_env 0 None) ''ORD-00001'' initial_world of (r, w') \<Rightarrow>
           r = Inl (Exception ''Payment failed: insufficient funds'') \<and>
           next_span_id w' = 3 \<and>
           stack w' = [] \<and>
           (\<exists>v p root. queue w' = [v, p, root] \<and>
              span_name v = ''validate_order'' \<and>
              span_name p = ''process_payment'' \<and>
              span_name root = ''process_order'' \<and>
              span_status p = Error ''Payment failed: insufficient funds'' \<and>
              events p = [\<lparr>event_name = ''Payment failed'',
                           event_attributes = [(''reason'', AStr ''insufficient_funds'')]\<rparr>])"
  using process_order_payment_failure [of "fixed_env 0 None" initial_world "''ORD-00001''"]
  by (simp add: fixed_env_def initial_world_def random_value_def)

text \<open>
  C2. \<open>process_payment\<close>, when Ctrl+C does not arrive in its sleep: it opens a span
  whose parent is the current span, sets \<open>order.id\<close> and a drawn
  \<open>payment.method\<close>, sleeps once, and raises the payment failure if and only if the
  draw of \<open>random.random()\<close> (the third draw of the call) is below the threshold.
  On the failure branch, and only there, the span has the attribute \<open>error\<close>, the
  event \<open>Payment failed\<close> with its reason, and ends with status \<open>Error\<close>; on the
  other branch its one event is \<open>Payment processed successfully\<close>.
\<close>

theorem process_payment_fails_iff:
  assumes "\<not> sigint env (sleeps w)"
  shows "case process_payment env oid w of (r, w') \<Rightarrow>
           (r = Inl (Exception ''Payment failed: insufficient funds'')
              \<longleftrightarrow> random_value env (rpos w + 2) < 1 / 10) \<and>
           (r = Inr () \<longleftrightarrow> \<not> random_value env (rpos w + 2) < 1 / 10) \<and>
           sleeps w' = Suc (sleeps w) \<and>
           stack w' = stack w \<and>
           (\<exists>s. queue w' = queue w @ [s] \<and>
              span_name s = ''process_payment'' \<and>
              parent_span_id s = current_span w \<and>
              attribute s ''order.id'' = Some (AStr oid) \<and>
              attribute s ''payment.method'' =
                Some (AStr ([''credit_card'', ''paypal'', ''bank_transfer'']
                              ! randbelow env (rpos w) 3)) \<and>
              (if random_value env (rpos w + 2) < 1 / 10
               then span_status s = Error ''Payment failed: insufficient funds'' \<and>
                    attribute s ''error'' = Some (ABool True) \<and>
                    events s = [\<lparr>event_name = ''Payment failed'',
                      event_attributes = [(''reason'', AStr ''insufficient_funds'')]\<rparr>]
               else span_status s = Unset \<and>
                    attribute s ''error'' = None \<and>
                    events s = [\<lparr>event_name = ''Payment processed successfully'',
                                 event_attributes = []\<rparr>]))"
proof (cases "random_value env (Suc (Suc (rpos w))) < 1 / 10")
  case True
  with assms show ?thesis
    by (simp add: process_payment_failed attribute_def)
next
  case False
  with assms show ?thesis
    by (simp add: process_payment_succeeded attribute_def)
qed

theorem process_payment_fails_iff_witness:
  "case process_payment (fixed_env 0 None) ''ORD-00001'' initial_world of (r, w') \<Rightarrow>
     r = Inl (Exception ''Payment failed: insufficient funds'') \<and>
     sleeps w' = 1 \<and>
     (\<exists>s. queue w' = [s] \<and> span_name s = ''process_payment'' \<and>
        attribute s ''payment.method'' = Some (AStr ''credit_card'') \<and>
        attribute s ''error'' = Some (ABool True))"
  using process_payment_fails_iff [of "fixed_env 0 None" initial_world "''ORD-00001''"]
  by (auto simp add: fixed_env_def initial_world_def random_value_def randbelow_def
      split: prod.splits)

text \<open>
  C4. \<open>process_order\<close> leaves the context stack as it found it, on each of its five
  ways out: every span a scope pushed has been popped. The driver loop starts from the
  empty stack, so the stack is empty again after every invocation.
\<close>

theorem process_order_restores_stack:
  "stack (snd (process_order env oid w)) = stack w"
proof (cases env w rule: process_order_cases)
  case validate
  then show ?thesis by (simp add: process_order_interrupted_validate)
next
  case payment
  then show ?thesis by (simp add: process_order_interrupted_payment)
next
  case failed
  then show ?thesis by (simp add: process_order_payment_failed)
next
  case shipment
  then show ?thesis by (simp add: process_order_interrupted_shipment)
next
  case succeeded
  then show ?thesis by (simp add: process_order_succeeded)
qed




section \<open>The values drawn\<close>

lemma randbelow_less: "0 < n \<Longrightarrow> randbelow env i n < n"
  by (simp add: randbelow_def)

lemma choice_of_three: "[a, b, c] ! randbelow env i 3 \<in> {a, b, c}"
proof -
  have "randbelow env i 3 < length [a, b, c]"
    using randbelow_less [of 3 env i] by simp
  then have "[a, b, c] ! randbelow env i 3 \<in> set [a, b, c]"
    by (rule nth_mem)
  then show ?thesis by simp
qed

lemma order_value_range:
  "10 \<le> 10 + int (randbelow env i 991) \<and> 10 + int (randbelow env i 991) \<le> 1000"
  using randbelow_less [of 991 env i] by simp

text \<open>
  C10. On every way through \<open>process_order\<close>, the last span it finishes is the root
  span, and each span it finishes satisfies: the root span's \<open>order.value\<close> is an
  integer from 10 to 1000, a payment span's \<open>payment.method\<close> is one of the three
  methods, a shipment span's \<open>carrier\<close> is one of the three carriers, and an event
  \<open>Payment failed\<close> carries exactly the reason \<open>insufficient_funds\<close>.
\<close>

theorem attributes_in_range:
  "span_name (last (spans_finished (process_order env oid) w)) = ''process_order'' \<and>
   (\<forall>s \<in> set (spans_finished (process_order env oid) w).
     (span_name s = ''process_order'' \<longrightarrow>
        (\<exists>v. attribute s ''order.value'' = Some (AInt v) \<and> 10 \<le> v \<and> v \<le> 1000)) \<and>
     (span_name s = ''process_payment'' \<longrightarrow>
        (\<exists>m. attribute s ''payment.method'' = Some (AStr m) \<and>
           m \<in> {''credit_card'', ''paypal'', ''bank_transfer''})) \<and>
     (span_name s = ''schedule_shipment'' \<longrightarrow>
        (\<exists>c. attribute s ''carrier'' = Some (AStr c) \<and> c \<in> {''USPS'', ''FedEx'', ''UPS''})) \<and>
     (\<forall>e \<in> set (events s). event_name e = ''Payment failed'' \<longrightarrow>
        event_attributes e = [(''reason'', AStr ''insufficient_funds'')]))"
proof (cases env w rule: process_order_cases)
  case validate
  then show ?thesis
    using order_value_range [of env "rpos w"]
    by (simp add: process_order_interrupted_validate spans_finished_def attribute_def)
next
  case payment
  then show ?thesis
    using order_value_range [of env "rpos w"]
      choice_of_three [of "''credit_card''" "''paypal''" "''bank_transfer''" env "rpos w + 2"]
    by (simp add: process_order_interrupted_payment spans_finished_def attribute_def)
next
  case failed
  then show ?thesis
    using order_value_range [of env "rpos w"]
      choice_of_three [of "''credit_card''" "''paypal''" "''bank_transfer''" env "rpos w + 2"]
    by (simp add: process_order_payment_failed spans_finished_def attribute_def)
next
  case shipment
  then show ?thesis
    using order_value_range [of env "rpos w"]
      choice_of_three [of "''credit_card''" "''paypal''" "''bank_transfer''" env "rpos w + 2"]
      choice_of_three [of "''USPS''" "''FedEx''" "''UPS''" env "rpos w + 5"]
    by (simp add: process_order_interrupted_shipment spans_finished_def attribute_def)
next
  case succeeded
  then show ?thesis
    using order_value_range [of env "rpos w"]
      choice_of_three [of "''credit_card''" "''paypal''" "''bank_transfer''" env "rpos w + 2"]
      choice_of_three [of "''USPS''" "''FedEx''" "''UPS''" env "rpos w + 5"]
    by (simp add: process_order_succeeded spans_finished_def attribute_def)
qed

theorem attributes_in_range_witness:
  "(let ss = spans_finished (process_order (fixed_env 0 None) ''ORD-00001'') initial_world in
      span_name (ss ! 2) = ''process_order'' \<and>
      attribute (ss ! 2) ''order.value'' = Some (AInt 10) \<and>
      span_name (ss ! 1) = ''process_payment'' \<and>
      attribute (ss ! 1) ''payment.method'' = Some (AStr ''credit_card'') \<and>
      map event_name (events (ss ! 1)) = [''Payment failed''] \<and>
      map event_attributes (events (ss ! 1)) = [[(''reason'', AStr ''insufficient_funds'')]]) \<and>
   (let ss = spans_finished (process_order (fixed_env (2 ^ 52) None) ''ORD-00001'') initial_world in
      span_name (ss ! 2) = ''schedule_shipment'' \<and>
      attribute (ss ! 2) ''carrier'' = Some (AStr ''FedEx''))"
  using attributes_in_range [of "fixed_env 0 None" "''ORD-00001''" initial_world]
    attributes_in_range [of "fixed_env (2 ^ 52) None" "''ORD-00001''" initial_world]
  by (simp add: spans_finished_def process_order_payment_failed process_order_succeeded
      fixed_env_def initial_world_def random_value_def randbelow_def attribute_def Let_def)

section \<open>The driver loop\<close>

lemma driver_sleep_result:
  "and_then (uniform env a b) (time_sleep env) w =
     (if sigint env (sleeps w) then Inl KeyboardInterrupt else Inr (),
      w\<lparr>rpos := Suc (rpos w), sleeps := Suc (sleeps w)\<rparr>)"
  by (simp add: and_then_def uniform_def random_random_def time_sleep_def)

lemma loop_body_interrupted:
  assumes "process_order env (order_id c) w = (Inl KeyboardInterrupt, w1)"
  shows "loop_body env c w = (Some KeyboardInterrupt, c, w1)"
  using assms by (simp add: loop_body_def)

lemma loop_body_failed:
  assumes "process_order env (order_id c) w = (Inl (Exception m), w1)"
  shows "loop_body env c w =
     (if sigint env (sleeps w1) then Some KeyboardInterrupt else None, Suc c,
      w1\<lparr>rpos := Suc (rpos w1), sleeps := Suc (sleeps w1),
         stdout := stdout w1 @ [''Error processing order '' @ str_int c @ '': '' @ m]\<rparr>)"
  using assms by (simp add: loop_body_def driver_sleep_result print_def)

lemma loop_body_succeeded:
  assumes "process_order env (order_id c) w = (Inr (), w1)"
  shows "loop_body env c w =
     (if sigint env (sleeps w1) then Some KeyboardInterrupt else None, Suc c,
      w1\<lparr>rpos := Suc (rpos w1), sleeps := Suc (sleeps w1)\<rparr>)"
  using assms by (simp add: loop_body_def driver_sleep_result)

lemma loop_body_exn:
  "fst (loop_body env c w) \<noteq> Some (Exception m)"
  by (simp add: loop_body_def driver_sleep_result Let_def split: prod.splits sum.splits exn.splits)

lemma driver_loop_exn:
  "fst (driver_loop env n c w) \<noteq> Some (Exception m)"
proof (induction n arbitrary: c w)
  case 0
  then show ?case by simp
next
  case (Suc n)
  obtain r c' w' where b: "loop_body env c w = (r, c', w')"
    by (cases "loop_body env c w") auto
  show ?case
  proof (cases r)
    case None
    with b Suc show ?thesis by simp
  next
    case (Some e)
    with b loop_body_exn [of env c w m] show ?thesis by auto
  qed
qed


lemma at_first_interrupt:
  assumes "sigint env k" and "\<And>i. i < k \<Longrightarrow> \<not> sigint env i" and "a \<le> k"
  shows "sigint env a \<longleftrightarrow> a = k"
  using assms by (cases "a = k") auto

lemma loop_body_step:
  assumes k: "sigint env k" and first: "\<And>i. i < k \<Longrightarrow> \<not> sigint env i"
    and le: "sleeps w \<le> k"
  shows "\<exists>r c' w'. loop_body env c w = (r, c', w') \<and>
           stack w' = stack w \<and> flushes w' = flushes w \<and> exported w' = exported w \<and>
           (r = Some KeyboardInterrupt \<and> sleeps w' = Suc k \<or>
            r = None \<and> sleeps w < sleeps w' \<and> sleeps w' \<le> k)"
proof (cases env w rule: process_order_cases)
  case validate
  then have "sleeps w = k"
    using at_first_interrupt [OF k first le] by simp
  then show ?thesis
    by (simp add: loop_body_interrupted [OF process_order_interrupted_validate [OF validate]])
next
  case payment
  then have "Suc (sleeps w) \<le> k"
    using at_first_interrupt [OF k first le] le by simp
  with payment have "Suc (sleeps w) = k"
    using at_first_interrupt [OF k first, of "Suc (sleeps w)"] by simp
  then show ?thesis
    by (auto simp add: loop_body_interrupted [OF process_order_interrupted_payment [OF payment]])
next
  case failed
  then have 1: "Suc (sleeps w) \<le> k"
    using at_first_interrupt [OF k first le] le by simp
  with failed have 2: "Suc (Suc (sleeps w)) \<le> k"
    using at_first_interrupt [OF k first, of "Suc (sleeps w)"] by simp
  show ?thesis
    using 2 at_first_interrupt [OF k first 2]
    by (auto simp add: loop_body_failed [OF process_order_payment_failed [OF failed]])
next
  case shipment
  then have 1: "Suc (sleeps w) \<le> k"
    using at_first_interrupt [OF k first le] le by simp
  with shipment have 2: "Suc (Suc (sleeps w)) \<le> k"
    using at_first_interrupt [OF k first, of "Suc (sleeps w)"] by simp
  with shipment have "Suc (Suc (sleeps w)) = k"
    using at_first_interrupt [OF k first 2] by simp
  then show ?thesis
    by (auto simp add: loop_body_interrupted [OF process_order_interrupted_shipment [OF shipment]])
next
  case succeeded
  then have 1: "Suc (sleeps w) \<le> k"
    using at_first_interrupt [OF k first le] le by simp
  with succeeded have 2: "Suc (Suc (sleeps w)) \<le> k"
    using at_first_interrupt [OF k first, of "Suc (sleeps w)"] by simp
  with succeeded have 3: "Suc (Suc (Suc (sleeps w))) \<le> k"
    using at_first_interrupt [OF k first 2] by simp
  show ?thesis
    using 3 at_first_interrupt [OF k first 3]
    by (auto simp add: loop_body_succeeded [OF process_order_succeeded [OF succeeded]]
        eval_nat_numeral)
qed

lemma driver_loop_first_interrupt:
  assumes k: "sigint env k" and first: "\<And>i. i < k \<Longrightarrow> \<not> sigint env i"
  shows "sleeps w \<le> k \<Longrightarrow> k - sleeps w < n \<Longrightarrow>
         \<exists>c' w'. driver_loop env n c w = (Some KeyboardInterrupt, c', w') \<and>
           sleeps w' = Suc k \<and> stack w' = stack w \<and> flushes w' = flushes w \<and>
           exported w' = exported w"
proof (induction n arbitrary: c w)
  case 0
  then show ?case by simp
next
  case (Suc n)
  from loop_body_step [OF k first Suc.prems(1), of c]
  obtain r c1 w1 where b: "loop_body env c w = (r, c1, w1)"
    and fr: "stack w1 = stack w" "flushes w1 = flushes w" "exported w1 = exported w"
    and d: "r = Some KeyboardInterrupt \<and> sleeps w1 = Suc k \<or>
            r = None \<and> sleeps w < sleeps w1 \<and> sleeps w1 \<le> k"
    by blast
  from d show ?case
  proof
    assume "r = Some KeyboardInterrupt \<and> sleeps w1 = Suc k"
    with b fr show ?thesis by simp
  next
    assume a: "r = None \<and> sleeps w < sleeps w1 \<and> sleeps w1 \<le> k"
    with Suc.prems have "k - sleeps w1 < n" by linarith
    with a Suc.IH [of w1 c1] b fr show ?thesis by simp
  qed
qed

lemma loop_body_quiet:
  assumes "\<And>i. \<not> sigint env i"
  shows "fst (loop_body env c w) = None"
proof (cases "random_value env (Suc (Suc (Suc (Suc (rpos w))))) < 1 / 10")
  case True
  then show ?thesis
    using assms
    by (simp add: loop_body_failed [OF process_order_payment_failed])
next
  case False
  then show ?thesis
    using assms
    by (simp add: loop_body_succeeded [OF process_order_succeeded] rpos_add_4)
qed

lemma driver_loop_quiet:
  assumes "\<And>i. \<not> sigint env i"
  shows "fst (driver_loop env n c w) = None"
proof (induction n arbitrary: c w)
  case 0
  then show ?case by simp
next
  case (Suc n)
  obtain r c' w' where b: "loop_body env c w = (r, c', w')"
    by (cases "loop_body env c w") auto
  with loop_body_quiet [OF assms, of c w] have "r = None" by simp
  with b Suc show ?case by simp
qed

text \<open>
  C5. In every pass of the loop, a failure \<open>Exception m\<close> raised by
  \<open>process_order\<close> is caught inside the pass: the line
  \<open>Error processing order c: m\<close> is printed, the counter is incremented, the loop
  sleeps and, unless Ctrl+C arrives in that sleep, goes on with the next pass. No
  \<open>Exception\<close> ever leaves the driver loop, in any environment and after any number
  of passes.
\<close>

theorem driver_loop_contains_failure:
  assumes "process_order env (order_id c) w = (Inl (Exception m), w1)"
    and "\<not> sigint env (sleeps w1)"
  shows "loop_body env c w =
           (None, c + 1,
            w1\<lparr>rpos := Suc (rpos w1), sleeps := Suc (sleeps w1),
               stdout := stdout w1 @ [''Error processing order '' @ str_int c @ '': '' @ m]\<rparr>) \<and>
         driver_loop env (Suc n) c w =
           driver_loop env n (c + 1)
             (w1\<lparr>rpos := Suc (rpos w1), sleeps := Suc (sleeps w1),
                stdout := stdout w1 @ [''Error processing order '' @ str_int c @ '': '' @ m]\<rparr>) \<and>
         fst (driver_loop env k c0 w0) \<noteq> Some (Exception m')"
  using assms driver_loop_exn [of env k c0 w0 m']
  by (simp add: loop_body_failed [OF assms(1)])

lemma str_int_7: "str_int 7 = ''7''"
  by (simp add: str_int.simps [of 7] digit_char_def)

theorem driver_loop_contains_failure_witness:
  "fst (loop_body (fixed_env 0 None) 7 initial_world) = None \<and>
   fst (snd (loop_body (fixed_env 0 None) 7 initial_world)) = 8 \<and>
   stdout (snd (snd (loop_body (fixed_env 0 None) 7 initial_world))) =
     [''Error processing order 7: Payment failed: insufficient funds''] \<and>
   sleeps (snd (snd (loop_body (fixed_env 0 None) 7 initial_world))) = 3 \<and>
   fst (driver_loop (fixed_env 0 None) 5 7 initial_world)
     \<noteq> Some (Exception ''Payment failed: insufficient funds'')"
proof -
  have f: "process_order (fixed_env 0 None) (order_id 7) initial_world =
      (Inl (Exception ''Payment failed: insufficient funds''),
       snd (process_order (fixed_env 0 None) (order_id 7) initial_world))"
    by (simp add: process_order_payment_failed fixed_env_def initial_world_def random_value_def)
  have s: "sleeps (snd (process_order (fixed_env 0 None) (order_id 7) initial_world)) = 2"
    "stdout (snd (process_order (fixed_env 0 None) (order_id 7) initial_world)) = []"
    by (simp_all add: process_order_payment_failed fixed_env_def initial_world_def
        random_value_def)
  have q: "\<not> sigint (fixed_env 0 None)
      (sleeps (snd (process_order (fixed_env 0 None) (order_id 7) initial_world)))"
    by (simp add: fixed_env_def)
  from driver_loop_contains_failure [OF f q, of 0 5 7 initial_world
      "''Payment failed: insufficient funds''"]
  show ?thesis
    by (simp add: s str_int_7)
qed

lemma main_first_interrupt:
  assumes k: "sigint env k" and first: "\<And>i. i < k \<Longrightarrow> \<not> sigint env i" and n: "k < n"
  shows "\<exists>w'. main env n initial_world = Some (Inr (), w') \<and>
           sleeps w' = Suc k \<and> flushes w' = 1 \<and> queue w' = [] \<and> stack w' = [] \<and>
           last (stdout w') = ''Done!''"
proof -
  let ?w0 = "snd (and_then (print ''Starting test application...'') (\<lambda>_.
                  and_then (print ''Sending traces to http://localhost:4320'') (\<lambda>_.
                  print (''Press Ctrl+C to stop'' @ [newline]))) initial_world)"
  have w0: "stack ?w0 = []" "flushes ?w0 = 0"
    by (simp_all add: and_then_def print_def initial_world_def)
  have "sleeps ?w0 \<le> k" "k - sleeps ?w0 < n"
    using n by (simp_all add: and_then_def print_def initial_world_def)
  from driver_loop_first_interrupt [OF k first this, of 1]
  obtain c w1 where d: "driver_loop env n 1 ?w0 = (Some KeyboardInterrupt, c, w1)"
    and w1: "sleeps w1 = Suc k" "stack w1 = stack ?w0" "flushes w1 = flushes ?w0"
    by blast
  from w1 w0 have w1': "stack w1 = []" "flushes w1 = 0"
    by simp_all
  show ?thesis
    using d w1(1) w1' by (simp add: main_def Let_def and_then_def print_def force_flush_def)
qed

text \<open>
  C6 as stated fails: Ctrl+C that arrives during the sleep of \<open>validate_order\<close> in the
  first pass is observed there, in the middle of the step. The run ends with only the
  \<open>validate_order\<close> span and the root span, neither with an event: the validation
  event was never recorded, and the payment and the shipment never started.
\<close>

theorem interrupt_mid_step_counterexample:
  "map_option (map span_name \<circ> exported \<circ> snd) (main (fixed_env 0 (Some 0)) 1 initial_world)
     = Some [''validate_order'', ''process_order''] \<and>
   map_option (map events \<circ> exported \<circ> snd) (main (fixed_env 0 (Some 0)) 1 initial_world)
     = Some [[], []] \<and>
   map_option (sleeps \<circ> snd) (main (fixed_env 0 (Some 0)) 1 initial_world) = Some 1"
  by (simp add: main_def Let_def and_then_def print_def force_flush_def initial_world_def
      fixed_env_def loop_body_def process_order_interrupted_validate)

text \<open>
  C6, amended. Ctrl+C is observed in the sleep it arrives in, be it the sleep of a
  workflow step or the sleep between two passes: when the first Ctrl+C arrives in the
  sleep numbered \<open>k\<close>, no further sleep is started. The handler then flushes once,
  which empties the processor's queue, no span is left open, and \<open>main\<close> returns.
\<close>

theorem interrupt_observed_in_its_sleep:
  assumes "sigint env k" and "\<forall>i<k. \<not> sigint env i" and "k < n"
  shows "\<exists>w'. main env n initial_world = Some (Inr (), w') \<and>
           sleeps w' = Suc k \<and> flushes w' = 1 \<and> queue w' = [] \<and> stack w' = []"
  using main_first_interrupt [of env k n] assms by auto

theorem interrupt_observed_in_its_sleep_witness:
  "\<exists>w'. main (fixed_env 0 (Some 0)) 1 initial_world = Some (Inr (), w') \<and>
           sleeps w' = 1 \<and> flushes w' = 1 \<and> queue w' = [] \<and> stack w' = []"
  using interrupt_observed_in_its_sleep [of "fixed_env 0 (Some 0)" 0 1]
  by (simp add: fixed_env_def)

text \<open>
  C7. Whenever Ctrl+C arrives in some sleep, the script ends: the handler flushes once,
  the queue is empty, the last line printed is \<open>Done!\<close> and the exit status is 0.
  The draws are arbitrary, so this holds whatever number of payment failures came before.
\<close>

theorem interrupt_exits_with_status_0:
  assumes "sigint env k" and "k < n"
  shows "\<exists>w'. script env n = Some (0, w') \<and> flushes w' = 1 \<and> queue w' = [] \<and>
           last (stdout w') = ''Done!''"
proof -
  define k0 where "k0 = (LEAST i. sigint env i)"
  have 1: "sigint env k0"
    unfolding k0_def using assms(1) by (rule LeastI)
  have 2: "\<And>i. i < k0 \<Longrightarrow> \<not> sigint env i"
    unfolding k0_def by (rule not_less_Least)
  have "k0 \<le> k"
    unfolding k0_def using assms(1) by (rule Least_le)
  with assms(2) have 3: "k0 < n" by simp
  from main_first_interrupt [OF 1 2 3] show ?thesis
    by (auto simp add: script_def)
qed

theorem interrupt_exits_with_status_0_witness:
  "\<exists>w'. script (fixed_env 0 (Some 4)) 5 = Some (0, w') \<and> flushes w' = 1 \<and> queue w' = [] \<and>
           last (stdout w') = ''Done!''"
  using interrupt_exits_with_status_0 [of "fixed_env 0 (Some 4)" 4 5]
  by (simp add: fixed_env_def)

subsection \<open>Order ids\<close>

lemma digit_value_digit_char: "d < 10 \<Longrightarrow> digit_value (digit_char d) = d"
proof -
  assume "d < 10"
  then have "d \<in> {0, 1, 2, 3, 4, 5, 6, 7, 8, 9}"
    by auto
  then show ?thesis
    by (auto simp add: digit_value_def digit_char_def)
qed

lemma int_str_snoc: "int_str (s @ [c]) = 10 * int_str s + digit_value c"
  by (simp add: int_str_def)

lemma int_str_str_int: "int_str (str_int n) = n"
proof (induction n rule: str_int.induct)
  case (1 n)
  show ?case
  proof (cases "n < 10")
    case True
    then show ?thesis
      by (simp add: str_int.simps [of n] int_str_def digit_value_digit_char)
  next
    case False
    with 1 show ?thesis
      by (simp add: str_int.simps [of n] int_str_snoc digit_value_digit_char)
  qed
qed

lemma int_str_zeros: "int_str (replicate k CHR ''0'' @ s) = int_str s"
proof -
  have "foldl (\<lambda>a c. 10 * a + digit_value c) 0 (replicate k CHR ''0'') = 0"
    by (induction k) (simp_all add: digit_value_def replicate_app_Cons_same)
  then show ?thesis by (simp add: int_str_def)
qed

lemma order_number_order_id: "order_number (order_id n) = n"
  by (simp add: order_number_def order_id_def format_05d_def int_str_zeros int_str_str_int)

lemma order_id_inj: "order_id a = order_id b \<longleftrightarrow> a = b"
  using order_number_order_id by metis

lemma str_int_1: "str_int (Suc 0) = ''1''"
  by (simp add: str_int.simps [of "Suc 0"] digit_char_def)

lemma order_id_1: "order_id (Suc 0) = ''ORD-00001''"
  by (simp add: order_id_def format_05d_def str_int_1 eval_nat_numeral)

lemma order_id_2: "order_id (Suc (Suc 0)) = ''ORD-00002''"
  by (simp add: order_id_def format_05d_def str_int.simps [of "Suc (Suc 0)"] digit_char_def
      eval_nat_numeral)

lemma order_ids_process_order:
  "order_ids (queue (snd (process_order env oid w))) = order_ids (queue w) @ [oid]"
proof (cases env w rule: process_order_cases)
  case validate
  then show ?thesis
    by (simp add: process_order_interrupted_validate order_ids_def attribute_def)
next
  case payment
  then show ?thesis
    by (simp add: process_order_interrupted_payment order_ids_def attribute_def)
next
  case failed
  then show ?thesis
    by (simp add: process_order_payment_failed order_ids_def attribute_def)
next
  case shipment
  then show ?thesis
    by (simp add: process_order_interrupted_shipment order_ids_def attribute_def)
next
  case succeeded
  then show ?thesis
    by (simp add: process_order_succeeded order_ids_def attribute_def)
qed

lemma loop_body_order_ids:
  assumes "loop_body env c w = (r, c', w')"
  shows "order_ids (queue w') = order_ids (queue w) @ [order_id c] \<and>
         (r = None \<longrightarrow> c' = Suc c)"
proof -
  obtain x w1 where p: "process_order env (order_id c) w = (x, w1)"
    by (cases "process_order env (order_id c) w") auto
  have q: "order_ids (queue w1) = order_ids (queue w) @ [order_id c]"
    using order_ids_process_order [of env "order_id c" w] p by simp
  show ?thesis
  proof (cases x)
    case (Inl e)
    show ?thesis
    proof (cases e)
      case (Exception m)
      with Inl p assms q show ?thesis
        by (auto simp add: loop_body_failed split: if_splits)
    next
      case KeyboardInterrupt
      with Inl p assms q show ?thesis
        by (auto simp add: loop_body_interrupted)
    qed
  next
    case (Inr u)
    with p assms q show ?thesis
      by (auto simp add: loop_body_succeeded split: if_splits)
  qed
qed

lemma driver_loop_order_ids:
  "driver_loop env n c w = (r, c', w') \<Longrightarrow>
   \<exists>j. order_ids (queue w') = order_ids (queue w) @ map order_id [c..<c + j] \<and>
       (r = None \<longrightarrow> j = n \<and> c' = c + n)"
proof (induction n arbitrary: c w)
  case 0
  then have "order_ids (queue w') = order_ids (queue w) @ map order_id [c..<c + 0]"
    by simp
  with 0 show ?case by auto
next
  case (Suc n)
  obtain r1 c1 w1 where b: "loop_body env c w = (r1, c1, w1)"
    by (cases "loop_body env c w") auto
  note ids = loop_body_order_ids [OF b]
  show ?case
  proof (cases r1)
    case None
    with ids have c1: "c1 = Suc c" by simp
    from None b Suc.prems have "driver_loop env n (Suc c) w1 = (r, c', w')"
      by (simp add: c1)
    from Suc.IH [OF this] obtain j where
      j: "order_ids (queue w') = order_ids (queue w1) @ map order_id [Suc c..<Suc c + j]"
      "r = None \<longrightarrow> j = n \<and> c' = Suc c + n"
      by blast
    have "[c..<c + Suc j] = c # [Suc c..<Suc c + j]"
      by (simp add: upt_conv_Cons)
    with j ids have "order_ids (queue w') = order_ids (queue w) @ map order_id [c..<c + Suc j]"
      by simp
    with j(2) show ?thesis by (intro exI [of _ "Suc j"]) auto
  next
    case (Some e)
    with b Suc.prems have "r = Some e" "w' = w1" by simp_all
    with ids have "order_ids (queue w') = order_ids (queue w) @ map order_id [c..<c + 1]"
      by simp
    with \<open>r = Some e\<close> show ?thesis by (intro exI [of _ 1]) simp
  qed
qed

text \<open>
  C9. After any number of passes of the driver loop started by \<open>main\<close>, whether they
  failed, succeeded or were interrupted, the order ids of the invocations so far are
  \<open>order_id 1\<close>, \<open>order_id 2\<close>, ... in this order: \<open>ORD-\<close> and the counter
  in at least five digits. The numbers they carry count up from 1 by 1, so they are
  strictly increasing and the ids are distinct. While the loop is running, the counter is
  one more than the number of passes made.
\<close>

theorem order_ids_count_up:
  "case driver_loop env n 1 initial_world of (r, c, w') \<Rightarrow>
     order_ids (queue w') = map order_id [1..<Suc (length (order_ids (queue w')))] \<and>
     map order_number (order_ids (queue w')) = [1..<Suc (length (order_ids (queue w')))] \<and>
     sorted_wrt (<) (map order_number (order_ids (queue w'))) \<and>
     distinct (order_ids (queue w')) \<and>
     (r = None \<longrightarrow> length (order_ids (queue w')) = n \<and> c = 1 + n)"
proof -
  obtain r c w' where d: "driver_loop env n 1 initial_world = (r, c, w')"
    by (cases "driver_loop env n 1 initial_world") auto
  from driver_loop_order_ids [OF d] obtain j where
    j: "order_ids (queue w') = map order_id [1..<1 + j]" "r = None \<longrightarrow> j = n \<and> c = 1 + n"
    by (auto simp add: initial_world_def order_ids_def)
  then have len: "length (order_ids (queue w')) = j" by simp
  have num: "map order_number (map order_id [1..<Suc j]) = [1..<Suc j]"
    by (simp add: order_number_order_id map_idI del: upt_Suc)
  have "inj order_id"
    by (simp add: inj_on_def order_id_inj)
  then have dist: "distinct (map order_id [1..<Suc j])"
    by (simp add: distinct_map inj_on_def del: upt_Suc)
  have "order_ids (queue w') = map order_id [1..<Suc (length (order_ids (queue w')))] \<and>
     map order_number (order_ids (queue w')) = [1..<Suc (length (order_ids (queue w')))] \<and>
     sorted_wrt (<) (map order_number (order_ids (queue w'))) \<and>
     distinct (order_ids (queue w')) \<and>
     (r = None \<longrightarrow> length (order_ids (queue w')) = n \<and> c = 1 + n)"
    unfolding len using j num dist by (simp del: upt_Suc)
  then show ?thesis
    unfolding d prod.case .
qed

theorem order_ids_count_up_witness:
  "fst (driver_loop (fixed_env 0 None) 2 1 initial_world) = None \<and>
   fst (snd (driver_loop (fixed_env 0 None) 2 1 initial_world)) = 3 \<and>
   order_ids (queue (snd (snd (driver_loop (fixed_env 0 None) 2 1 initial_world))))
     = [''ORD-00001'', ''ORD-00002'']"
proof -
  obtain r c w' where d: "driver_loop (fixed_env 0 None) 2 1 initial_world = (r, c, w')"
    by (cases "driver_loop (fixed_env 0 None) 2 1 initial_world") auto
  have "fst (driver_loop (fixed_env 0 None) 2 1 initial_world) = None"
    by (rule driver_loop_quiet) (simp add: fixed_env_def)
  with d have r: "r = None" by simp
  from order_ids_count_up [where env = "fixed_env 0 None" and n = 2]
  have t: "order_ids (queue w') = map order_id [1..<Suc (length (order_ids (queue w')))] \<and>
     map order_number (order_ids (queue w')) = [1..<Suc (length (order_ids (queue w')))] \<and>
     sorted_wrt (<) (map order_number (order_ids (queue w'))) \<and>
     distinct (order_ids (queue w')) \<and>
     (r = None \<longrightarrow> length (order_ids (queue w')) = 2 \<and> c = 1 + 2)"
    unfolding d prod.case .
  with r have len: "length (order_ids (queue w')) = 2" and c: "c = 3"
    by simp_all
  from t have "order_ids (queue w') = map order_id [1..<Suc (length (order_ids (queue w')))]"
    by (rule conjunct1)
  then have "order_ids (queue w') = map order_id [1..<Suc 2]"
    by (simp only: len)
  moreover have "[1..<Suc 2] = [Suc 0, Suc (Suc 0)]"
    by (simp add: eval_nat_numeral)
  ultimately have "order_ids (queue w') = [''ORD-00001'', ''ORD-00002'']"
    by (simp only: list.map order_id_1 order_id_2)
  with d r c show ?thesis
    by simp
qed

section \<open>Configuration\<close>

text \<open>
  C8 as stated fails: the endpoint does not depend on what the process is started with.
  A command line and an environment that name another collector leave it unchanged.
\<close>

theorem endpoint_override_counterexample:
  "endpoint
     (configure
        \<lparr>argv = [''test-app.py'', ''--endpoint'', ''http://collector:4318/v1/traces''],
         environ = [(''OTEL_EXPORTER_OTLP_TRACES_ENDPOINT'',
                     ''http://collector:4318/v1/traces'')]\<rparr>)
     = Some ''http://localhost:4320/v1/traces''"
  by (simp add: configure_def)

text \<open>
  C8, amended. The script reads nothing at startup: what it configures is the same for
  every command line and environment. It fixes the endpoint to
  \<open>http://localhost:4320/v1/traces\<close> and passes no batch size, no flush interval and
  no flush deadline, which leaves these three to the defaults of the tracing library.
\<close>

theorem configuration_is_fixed:
  "configure st = configure st' \<and>
   endpoint (configure st) = Some ''http://localhost:4320/v1/traces'' \<and>
   max_export_batch_size (configure st) = None \<and>
   schedule_delay_millis (configure st) = None \<and>
   flush_timeout_millis (configure st) = None"
  by (simp add: configure_def)

end
